theory Spec2Isabelle
  imports Main
begin

section \<open>Values, objects and the heap\<close>

text \<open>
  The comparator of \<^verbatim>\<open>src/core/deep-equal-core.ts\<close> reads JavaScript values. The
  embedding keeps the part of the value universe that the comparator distinguishes:
  primitives, functions (opaque, compared by identity) and heap objects addressed by
  reference, so that identity, sharing and reference cycles are expressible.

  Numbers: \<open>NaN\<close>, the negative zero, the two infinities and the finite values.
  \<open>Fin 0\<close> is the positive zero. Only \<open>===\<close>, \<open>>\<close> against the depth, the NaN test and
  the sign of a zero are ever computed on numbers; finite values are carried as
  integers, fractions are left out.
\<close>

datatype jsnum = NaN | NegZero | Fin int | PosInf | NegInf

datatype val =
    VUndef
  | VNull
  | VBool bool
  | VNum jsnum
  | VStr string
  | VFun nat
  | VRef nat

text \<open>The typed-array constructors and their element sizes in bytes.\<close>

datatype tkind =
    Int8 | Uint8 | Uint8Clamped | Int16 | Uint16 | Int32 | Uint32 | Float32 | Float64

fun bytesPerElement :: "tkind \<Rightarrow> nat" where
  "bytesPerElement Int8 = 1"
| "bytesPerElement Uint8 = 1"
| "bytesPerElement Uint8Clamped = 1"
| "bytesPerElement Int16 = 2"
| "bytesPerElement Uint16 = 2"
| "bytesPerElement Int32 = 4"
| "bytesPerElement Uint32 = 4"
| "bytesPerElement Float32 = 4"
| "bytesPerElement Float64 = 8"

text \<open>The primitive wrapped by a boxed primitive (\<open>new Number\<close>, \<open>new String\<close>,
  \<open>new Boolean\<close>).\<close>

datatype boxed = BNum jsnum | BStr string | BBool bool

text \<open>
  Heap objects, one constructor per category of the dispatch. A plain object carries
  the class it was built by (\<open>None\<close> for an object literal, \<open>Some n\<close> for an instance
  of the user class \<open>n\<close>), its enumerable own data properties in enumeration order,
  and its own data properties that are not enumerable (those made by
  \<open>Object.defineProperty\<close>). Arrays are dense and carry no extra properties; there are
  no accessors, symbols or proxies.
\<close>

datatype obj =
    ArrayO "val list"
  | RegExpO string string
  | DateO jsnum
  | ArrayBufferO "nat list"
  | TypedArrayO tkind "jsnum list"
  | BoxedO boxed
  | ErrorO string string
  | SetO "val list"
  | MapO "(val \<times> val) list"
  | PlainO "nat option" "(string \<times> val) list" "(string \<times> val) list"

type_synonym heap = "nat \<Rightarrow> obj"

text \<open>The visitation ledger: the \<open>WeakMap\<close> from left-hand objects to right-hand
  objects.\<close>

type_synonym ledger = "nat \<rightharpoonup> nat"

text \<open>
  \<open>RequiredDeepEqualOptions\<close>. \<open>maxDepth\<close> is declared \<open>number\<close> and is not
  validated anywhere, so it is any number, \<open>Infinity\<close> and \<open>NaN\<close> included. The
  depth it is compared with is an integer, so a ceiling with a fraction acts as the
  next integer below it does.
\<close>

record options =
  nanEqual :: bool
  checkPrototypes :: bool
  strictZero :: bool
  maxDepth :: jsnum

text \<open>
  A call either returns or throws. \<open>TypeError\<close> is the exception JavaScript raises
  when a value that is not a function is called or a value that is not iterable is
  iterated. \<open>RangeError\<close> is the exception raised when the call stack is used up.
  \<open>Unmodelled\<close> marks the executions that leave the embedded fragment: a call into a
  user function stored in a property, and the conversions that allocate temporary
  objects.
\<close>

datatype error = TypeError | RangeError | Unmodelled

type_synonym result = "error + (bool \<times> ledger)"

section \<open>Primitive operations\<close>

text \<open>\<open>numEq x y\<close> is \<open>x === y\<close> on numbers.\<close>

fun numEq :: "jsnum \<Rightarrow> jsnum \<Rightarrow> bool" where
  "numEq NegZero NegZero = True"
| "numEq NegZero (Fin j) = (j = 0)"
| "numEq (Fin i) NegZero = (i = 0)"
| "numEq (Fin i) (Fin j) = (i = j)"
| "numEq PosInf PosInf = True"
| "numEq NegInf NegInf = True"
| "numEq _ _ = False"

text \<open>\<open>exceeds depth m\<close> is \<open>depth > m\<close> for the depth counter, a natural number,
  and a number \<open>m\<close>; against \<open>NaN\<close> every comparison is false.\<close>

fun exceeds :: "nat \<Rightarrow> jsnum \<Rightarrow> bool" where
  "exceeds depth NaN = False"
| "exceeds depth NegZero = (depth > 0)"
| "exceeds depth (Fin m) = (int depth > m)"
| "exceeds depth PosInf = False"
| "exceeds depth NegInf = True"

text \<open>\<open>strictEq a b\<close> is \<open>a === b\<close>.\<close>

fun strictEq :: "val \<Rightarrow> val \<Rightarrow> bool" where
  "strictEq VUndef VUndef = True"
| "strictEq VNull VNull = True"
| "strictEq (VBool x) (VBool y) = (x = y)"
| "strictEq (VNum x) (VNum y) = numEq x y"
| "strictEq (VStr x) (VStr y) = (x = y)"
| "strictEq (VFun x) (VFun y) = (x = y)"
| "strictEq (VRef x) (VRef y) = (x = y)"
| "strictEq _ _ = False"

text \<open>\<open>isZero a\<close> is \<open>a === 0\<close>.\<close>

fun isZero :: "val \<Rightarrow> bool" where
  "isZero (VNum NegZero) = True"
| "isZero (VNum (Fin i)) = (i = 0)"
| "isZero _ = False"

text \<open>\<open>recipEq a b\<close> is \<open>1 / a === 1 / b\<close>, evaluated only where \<open>a === b\<close> and
  \<open>a === 0\<close>: both are zeros, the reciprocals are the infinities of their signs.\<close>

fun recipEq :: "val \<Rightarrow> val \<Rightarrow> bool" where
  "recipEq (VNum NegZero) (VNum NegZero) = True"
| "recipEq (VNum (Fin i)) (VNum (Fin j)) = (i = j)"
| "recipEq _ _ = False"

text \<open>\<open>selfUnequal a\<close> is \<open>a !== a\<close>.\<close>

definition selfUnequal :: "val \<Rightarrow> bool" where
  "selfUnequal a = (\<not> strictEq a a)"

text \<open>\<open>truthy a\<close> is \<open>!!a\<close>.\<close>

fun truthy :: "val \<Rightarrow> bool" where
  "truthy VUndef = False"
| "truthy VNull = False"
| "truthy (VBool x) = x"
| "truthy (VNum NaN) = False"
| "truthy (VNum NegZero) = False"
| "truthy (VNum (Fin i)) = (i \<noteq> 0)"
| "truthy (VNum PosInf) = True"
| "truthy (VNum NegInf) = True"
| "truthy (VStr s) = (s \<noteq> [])"
| "truthy (VFun _) = True"
| "truthy (VRef _) = True"

text \<open>\<open>typeofObject a\<close> is \<open>typeof a === 'object'\<close>.\<close>

fun typeofObject :: "val \<Rightarrow> bool" where
  "typeofObject VNull = True"
| "typeofObject (VRef _) = True"
| "typeofObject _ = False"

section \<open>What the comparator reads from an object\<close>

text \<open>
  The source casts its right-hand argument to the category of the left-hand one
  (\<open>b as Date\<close>, \<open>b as Set<any>\<close>) without testing it; with \<open>checkPrototypes\<close> off the
  two categories can differ. The functions below give, for every category of object,
  the value of each member the comparator reads.
\<close>

text \<open>The built-in constructors.\<close>

datatype ctor =
    CArray | CRegExp | CDate | CArrayBuffer | CTyped tkind
  | CNumber | CString | CBoolean | CError | CSet | CMap | CObject

text \<open>The value of \<open>x.constructor\<close>: a built-in constructor, or a value of the program
  (the class function \<open>VFun n\<close> of a user class, or an own property named
  \<open>constructor\<close>).\<close>

datatype cval = Builtin ctor | Given val

text \<open>\<open>ownProp ps k\<close> is the value of the property \<open>k\<close> among the own properties
  \<open>ps\<close>, and \<open>undefined\<close> if there is none.\<close>

fun ownProp :: "(string \<times> val) list \<Rightarrow> string \<Rightarrow> val" where
  "ownProp ps k = (case map_of ps k of Some v \<Rightarrow> v | None \<Rightarrow> VUndef)"

fun constructorOf :: "obj \<Rightarrow> cval" where
  "constructorOf (ArrayO _) = Builtin CArray"
| "constructorOf (RegExpO _ _) = Builtin CRegExp"
| "constructorOf (DateO _) = Builtin CDate"
| "constructorOf (ArrayBufferO _) = Builtin CArrayBuffer"
| "constructorOf (TypedArrayO k _) = Builtin (CTyped k)"
| "constructorOf (BoxedO (BNum _)) = Builtin CNumber"
| "constructorOf (BoxedO (BStr _)) = Builtin CString"
| "constructorOf (BoxedO (BBool _)) = Builtin CBoolean"
| "constructorOf (ErrorO _ _) = Builtin CError"
| "constructorOf (SetO _) = Builtin CSet"
| "constructorOf (MapO _) = Builtin CMap"
| "constructorOf (PlainO cls ps hs) =
     (case map_of (ps @ hs) ''constructor'' of
        Some v \<Rightarrow> Given v
      | None \<Rightarrow> (case cls of None \<Rightarrow> Builtin CObject | Some n \<Rightarrow> Given (VFun n)))"

text \<open>\<open>cvalEq c d\<close> is \<open>c === d\<close> on constructor values.\<close>

fun cvalEq :: "cval \<Rightarrow> cval \<Rightarrow> bool" where
  "cvalEq (Builtin c) (Builtin d) = (c = d)"
| "cvalEq (Given v) (Given w) = strictEq v w"
| "cvalEq _ _ = False"

text \<open>The decimal name of an array index.\<close>

fun digitChar :: "nat \<Rightarrow> char" where
  "digitChar n = char_of (48 + n)"

fun decimal :: "nat \<Rightarrow> string" where
  "decimal n = (if n < 10 then [digitChar n] else decimal (n div 10) @ [digitChar (n mod 10)])"

declare decimal.simps [simp del]

definition indexKeys :: "nat \<Rightarrow> string list" where
  "indexKeys n = map decimal [0..<n]"

fun num :: "nat \<Rightarrow> val" where
  "num n = VNum (Fin (int n))"

text \<open>\<open>lengthOf x\<close> is \<open>x.length\<close>.\<close>

fun lengthOf :: "obj \<Rightarrow> val" where
  "lengthOf (ArrayO xs) = num (length xs)"
| "lengthOf (TypedArrayO _ xs) = num (length xs)"
| "lengthOf (BoxedO (BStr s)) = num (length s)"
| "lengthOf (PlainO _ ps hs) = ownProp (ps @ hs) ''length''"
| "lengthOf _ = VUndef"

text \<open>\<open>indexOf x i\<close> is \<open>x[i]\<close>; out of range it is \<open>undefined\<close>.\<close>

fun indexOf :: "obj \<Rightarrow> nat \<Rightarrow> val" where
  "indexOf (ArrayO xs) i = (if i < length xs then xs ! i else VUndef)"
| "indexOf (TypedArrayO _ xs) i = (if i < length xs then VNum (xs ! i) else VUndef)"
| "indexOf (BoxedO (BStr s)) i = (if i < length s then VStr [s ! i] else VUndef)"
| "indexOf (PlainO _ ps hs) i = ownProp (ps @ hs) (decimal i)"
| "indexOf _ i = VUndef"

text \<open>\<open>x.source\<close>, \<open>x.flags\<close>, \<open>x.name\<close>, \<open>x.message\<close>, \<open>x.size\<close> and
  \<open>x.byteLength\<close>.\<close>

fun sourceOf :: "obj \<Rightarrow> val" where
  "sourceOf (RegExpO src _) = VStr src"
| "sourceOf (PlainO _ ps hs) = ownProp (ps @ hs) ''source''"
| "sourceOf _ = VUndef"

fun flagsOf :: "obj \<Rightarrow> val" where
  "flagsOf (RegExpO _ fl) = VStr fl"
| "flagsOf (PlainO _ ps hs) = ownProp (ps @ hs) ''flags''"
| "flagsOf _ = VUndef"

fun nameOf :: "obj \<Rightarrow> val" where
  "nameOf (ErrorO nm _) = VStr nm"
| "nameOf (PlainO _ ps hs) = ownProp (ps @ hs) ''name''"
| "nameOf _ = VUndef"

fun messageOf :: "obj \<Rightarrow> val" where
  "messageOf (ErrorO _ msg) = VStr msg"
| "messageOf (PlainO _ ps hs) = ownProp (ps @ hs) ''message''"
| "messageOf _ = VUndef"

fun sizeOf :: "obj \<Rightarrow> val" where
  "sizeOf (SetO xs) = num (length xs)"
| "sizeOf (MapO xs) = num (length xs)"
| "sizeOf (PlainO _ ps hs) = ownProp (ps @ hs) ''size''"
| "sizeOf _ = VUndef"

fun byteLengthOf :: "obj \<Rightarrow> val" where
  "byteLengthOf (ArrayBufferO bs) = num (length bs)"
| "byteLengthOf (TypedArrayO k xs) = num (bytesPerElement k * length xs)"
| "byteLengthOf (PlainO _ ps hs) = ownProp (ps @ hs) ''byteLength''"
| "byteLengthOf _ = VUndef"

text \<open>
  \<open>getTimeCall x\<close> is \<open>x.getTime()\<close>. Only a date inherits the method; on every other
  object the member is \<open>undefined\<close> or an own property, and calling a value that is
  not a function throws.
\<close>

fun callProp :: "val \<Rightarrow> error + val" where
  "callProp (VFun _) = Inl Unmodelled"
| "callProp _ = Inl TypeError"

fun getTimeCall :: "obj \<Rightarrow> error + val" where
  "getTimeCall (DateO t) = Inr (VNum t)"
| "getTimeCall (PlainO _ ps hs) = callProp (ownProp (ps @ hs) ''getTime'')"
| "getTimeCall _ = Inl TypeError"

text \<open>
  \<open>overridesValueOf x\<close> is \<open>x.valueOf !== Object.prototype.valueOf\<close>, and
  \<open>valueOfCall p x\<close> is \<open>x.valueOf()\<close> for the object \<open>x\<close> at address \<open>p\<close>: the
  wrapped primitive of a boxed primitive, the time of a date, and the object itself
  where \<open>Object.prototype.valueOf\<close> is inherited.
\<close>

fun unbox :: "boxed \<Rightarrow> val" where
  "unbox (BNum n) = VNum n"
| "unbox (BStr s) = VStr s"
| "unbox (BBool c) = VBool c"

fun overridesValueOf :: "obj \<Rightarrow> bool" where
  "overridesValueOf (BoxedO _) = True"
| "overridesValueOf (DateO _) = True"
| "overridesValueOf (PlainO _ ps hs) = (map_of (ps @ hs) ''valueOf'' \<noteq> None)"
| "overridesValueOf _ = False"

fun valueOfCall :: "nat \<Rightarrow> obj \<Rightarrow> error + val" where
  "valueOfCall p (BoxedO x) = Inr (unbox x)"
| "valueOfCall p (DateO t) = Inr (VNum t)"
| "valueOfCall p (PlainO _ ps hs) =
     (case map_of (ps @ hs) ''valueOf'' of Some v \<Rightarrow> callProp v | None \<Rightarrow> Inr (VRef p))"
| "valueOfCall p _ = Inr (VRef p)"

text \<open>
  \<open>iterate x\<close> is the sequence \<open>for (const item of x)\<close> runs through, and
  \<open>arrayFrom x\<close> is \<open>Array.from(x)\<close>. Iterating a map yields freshly allocated entry
  arrays and \<open>Array.from\<close> of a plain object reads it as array-like: both leave the
  fragment. A plain object is not iterable.
\<close>

fun iterate :: "obj \<Rightarrow> error + val list" where
  "iterate (SetO xs) = Inr xs"
| "iterate (ArrayO xs) = Inr xs"
| "iterate (TypedArrayO _ xs) = Inr (map VNum xs)"
| "iterate (BoxedO (BStr s)) = Inr (map (\<lambda>c. VStr [c]) s)"
| "iterate (MapO _) = Inl Unmodelled"
| "iterate _ = Inl TypeError"

fun arrayFrom :: "obj \<Rightarrow> error + val list" where
  "arrayFrom (SetO xs) = Inr xs"
| "arrayFrom (ArrayO xs) = Inr xs"
| "arrayFrom (TypedArrayO _ xs) = Inr (map VNum xs)"
| "arrayFrom (BoxedO (BStr s)) = Inr (map (\<lambda>c. VStr [c]) s)"
| "arrayFrom _ = Inl Unmodelled"

text \<open>
  \<open>iterateEntries x\<close> is the sequence of pairs
  \<open>for (const [key, value] of x)\<close> runs through. On a set each element would be
  destructured in turn, which leaves the fragment.
\<close>

fun iterateEntries :: "obj \<Rightarrow> error + (val \<times> val) list" where
  "iterateEntries (MapO xs) = Inr xs"
| "iterateEntries (SetO _) = Inl Unmodelled"
| "iterateEntries (ArrayO _) = Inl Unmodelled"
| "iterateEntries (TypedArrayO _ _) = Inl Unmodelled"
| "iterateEntries (BoxedO (BStr _)) = Inl Unmodelled"
| "iterateEntries _ = Inl TypeError"

text \<open>
  \<open>objectKeys x\<close> is \<open>Object.keys(x)\<close>, the enumerable own keys;
  \<open>hasOwn x k\<close> is \<open>Object.prototype.hasOwnProperty.call(x, k)\<close>, which holds of
  every own property, enumerable or not; \<open>getOwn x k\<close> is \<open>x[k]\<close> for an own
  property \<open>k\<close>. An array and a boxed string own the non-enumerable \<open>length\<close>
  beside their indices. The categories without enumerable keys are asked for a
  property only by an object without keys, that is never.
\<close>

fun objectKeys :: "obj \<Rightarrow> string list" where
  "objectKeys (ArrayO xs) = indexKeys (length xs)"
| "objectKeys (TypedArrayO _ xs) = indexKeys (length xs)"
| "objectKeys (BoxedO (BStr s)) = indexKeys (length s)"
| "objectKeys (PlainO _ ps hs) = map fst ps"
| "objectKeys _ = []"

fun hasOwn :: "obj \<Rightarrow> string \<Rightarrow> bool" where
  "hasOwn (ArrayO xs) k = (k \<in> set (indexKeys (length xs)) \<or> k = ''length'')"
| "hasOwn (TypedArrayO _ xs) k = (k \<in> set (indexKeys (length xs)))"
| "hasOwn (BoxedO (BStr s)) k = (k \<in> set (indexKeys (length s)) \<or> k = ''length'')"
| "hasOwn (PlainO _ ps hs) k = (map_of (ps @ hs) k \<noteq> None)"
| "hasOwn _ k = False"

fun indexOfKey :: "string \<Rightarrow> nat \<Rightarrow> nat" where
  "indexOfKey k n = (case find (\<lambda>i. decimal i = k) [0..<n] of Some i \<Rightarrow> i | None \<Rightarrow> n)"

fun getOwn :: "obj \<Rightarrow> string \<Rightarrow> val" where
  "getOwn (ArrayO xs) k =
     (if k = ''length'' then num (length xs) else indexOf (ArrayO xs) (indexOfKey k (length xs)))"
| "getOwn (TypedArrayO t xs) k = indexOf (TypedArrayO t xs) (indexOfKey k (length xs))"
| "getOwn (BoxedO (BStr s)) k =
     (if k = ''length'' then num (length s) else indexOf (BoxedO (BStr s)) (indexOfKey k (length s)))"
| "getOwn (PlainO _ ps hs) k = ownProp (ps @ hs) k"
| "getOwn _ k = VUndef"

section \<open>The comparator\<close>

text \<open>
  In the definitions of this section \<open>rec\<close> stands for the recursive call
  \<open>deepEqualCore(\<cdot>, \<cdot>, options, \<cdot>, depth + 1)\<close>: it takes the two values and the
  ledger and gives the result of the call with the ledger as the call left it.
\<close>

type_synonym comparator = "val \<Rightarrow> val \<Rightarrow> ledger \<Rightarrow> result"

text \<open>
  The array loop: \<open>for (let i = length; i-- !== 0;)\<close> compares \<open>arrA[i]\<close> with
  \<open>arrB[i]\<close> from the last index down and returns false at the first mismatch.
\<close>

primrec arrayLoop :: "comparator \<Rightarrow> val list \<Rightarrow> obj \<Rightarrow> nat \<Rightarrow> ledger \<Rightarrow> result" where
  "arrayLoop rec arrA arrB 0 seen = Inr (True, seen)"
| "arrayLoop rec arrA arrB (Suc i) seen =
     (case rec (arrA ! i) (indexOf arrB i) seen of
        Inl e \<Rightarrow> Inl e
      | Inr (r, seen') \<Rightarrow>
          if \<not> r then Inr (False, seen') else arrayLoop rec arrA arrB i seen')"

text \<open>The element test of a typed array: \<open>valA === valB\<close>, or both NaN with
  \<open>nanEqual\<close>.\<close>

fun typedElemEq :: "bool \<Rightarrow> jsnum \<Rightarrow> jsnum \<Rightarrow> bool" where
  "typedElemEq ne x y = (numEq x y \<or> (ne \<and> x = NaN \<and> y = NaN))"

subsection \<open>\<open>compareSetOptimized\<close>\<close>

text \<open>
  Every candidate pairing of a set runs on a new ledger, which is dropped afterwards:
  \<open>pairFresh rec x y\<close> is \<open>deepEqualCore(x, y, options, new WeakMap(), depth + 1)\<close>.
\<close>

definition pairFresh :: "comparator \<Rightarrow> val \<Rightarrow> val \<Rightarrow> error + bool" where
  "pairFresh rec x y = (case rec x y Map.empty of Inl e \<Rightarrow> Inl e | Inr (r, _) \<Rightarrow> Inr r)"

text \<open>
  The inner loop of the branch for at most ten elements: it walks \<open>setB\<close> in insertion
  order with a running \<open>index\<close>, skips the indices in \<open>processedB\<close>, and stops at the
  first element that compares equal, giving its index.
\<close>

fun findForward ::
  "(val \<Rightarrow> val \<Rightarrow> error + bool) \<Rightarrow> val \<Rightarrow> val list \<Rightarrow> nat \<Rightarrow> nat set \<Rightarrow> error + nat option" where
  "findForward cmp itemA [] index processedB = Inr None"
| "findForward cmp itemA (itemB # rest) index processedB =
     (if index \<notin> processedB then
        (case cmp itemA itemB of
           Inl e \<Rightarrow> Inl e
         | Inr True \<Rightarrow> Inr (Some index)
         | Inr False \<Rightarrow> findForward cmp itemA rest (index + 1) processedB)
      else findForward cmp itemA rest (index + 1) processedB)"

fun smallSetLoop ::
  "(val \<Rightarrow> val \<Rightarrow> error + bool) \<Rightarrow> val list \<Rightarrow> val list \<Rightarrow> nat set \<Rightarrow> error + bool" where
  "smallSetLoop cmp [] setB processedB = Inr True"
| "smallSetLoop cmp (itemA # rest) setB processedB =
     (case findForward cmp itemA setB 0 processedB of
        Inl e \<Rightarrow> Inl e
      | Inr None \<Rightarrow> Inr False
      | Inr (Some index) \<Rightarrow> smallSetLoop cmp rest setB (insert index processedB))"

text \<open>
  The loops of the branch for more than ten elements: both arrays are walked from the
  last index down.
\<close>

primrec findBackward ::
  "(val \<Rightarrow> val \<Rightarrow> error + bool) \<Rightarrow> val \<Rightarrow> val list \<Rightarrow> nat \<Rightarrow> nat set \<Rightarrow> error + nat option" where
  "findBackward cmp itemA arrB 0 processedB = Inr None"
| "findBackward cmp itemA arrB (Suc j) processedB =
     (if j \<notin> processedB then
        (case cmp itemA (arrB ! j) of
           Inl e \<Rightarrow> Inl e
         | Inr True \<Rightarrow> Inr (Some j)
         | Inr False \<Rightarrow> findBackward cmp itemA arrB j processedB)
      else findBackward cmp itemA arrB j processedB)"

primrec largeSetLoop ::
  "(val \<Rightarrow> val \<Rightarrow> error + bool) \<Rightarrow> val list \<Rightarrow> val list \<Rightarrow> nat \<Rightarrow> nat set \<Rightarrow> error + bool" where
  "largeSetLoop cmp arrA arrB 0 processedB = Inr True"
| "largeSetLoop cmp arrA arrB (Suc i) processedB =
     (case findBackward cmp (arrA ! i) arrB (length arrB) processedB of
        Inl e \<Rightarrow> Inl e
      | Inr None \<Rightarrow> Inr False
      | Inr (Some j) \<Rightarrow> largeSetLoop cmp arrA arrB i (insert j processedB))"

text \<open>
  \<open>compareSetOptimized\<close>: \<open>setA\<close> holds the elements of the left-hand set, \<open>setB\<close> is
  the right-hand object. In the first branch \<open>setB\<close> is iterated once for every
  element of \<open>setA\<close>, so an object that is not iterable throws only if \<open>setA\<close> has an
  element.
\<close>

definition compareSetOptimized :: "comparator \<Rightarrow> val list \<Rightarrow> obj \<Rightarrow> error + bool" where
  "compareSetOptimized rec setA setB =
     (if length setA \<le> 10 then
        (if setA = [] then Inr True
         else (case iterate setB of
                 Inl e \<Rightarrow> Inl e
               | Inr itemsB \<Rightarrow> smallSetLoop (pairFresh rec) setA itemsB {}))
      else
        (case arrayFrom setB of
           Inl e \<Rightarrow> Inl e
         | Inr arrB \<Rightarrow>
             if length setA \<noteq> length arrB then Inr False
             else largeSetLoop (pairFresh rec) setA arrB (length setA) {}))"

subsection \<open>\<open>compareMapOptimized\<close>\<close>

text \<open>
  The inner loop runs through the entries of \<open>mapB\<close> in insertion order and stops at
  the first one whose key and value both compare equal; the value is compared only if
  the key did. All calls share the caller's ledger. No entry of \<open>mapB\<close> is marked.
\<close>

fun findEntry ::
  "comparator \<Rightarrow> val \<Rightarrow> val \<Rightarrow> (val \<times> val) list \<Rightarrow> ledger \<Rightarrow> result" where
  "findEntry rec keyA valueA [] seen = Inr (False, seen)"
| "findEntry rec keyA valueA ((keyB, valueB) # rest) seen =
     (case rec keyA keyB seen of
        Inl e \<Rightarrow> Inl e
      | Inr (rk, seen1) \<Rightarrow>
          if rk then
            (case rec valueA valueB seen1 of
               Inl e \<Rightarrow> Inl e
             | Inr (rv, seen2) \<Rightarrow>
                 if rv then Inr (True, seen2) else findEntry rec keyA valueA rest seen2)
          else findEntry rec keyA valueA rest seen1)"

fun mapLoop ::
  "comparator \<Rightarrow> (val \<times> val) list \<Rightarrow> (val \<times> val) list \<Rightarrow> ledger \<Rightarrow> result" where
  "mapLoop rec [] mapB seen = Inr (True, seen)"
| "mapLoop rec ((keyA, valueA) # rest) mapB seen =
     (case findEntry rec keyA valueA mapB seen of
        Inl e \<Rightarrow> Inl e
      | Inr (found, seen') \<Rightarrow>
          if \<not> found then Inr (False, seen') else mapLoop rec rest mapB seen')"

definition compareMapOptimized ::
  "comparator \<Rightarrow> (val \<times> val) list \<Rightarrow> obj \<Rightarrow> ledger \<Rightarrow> result" where
  "compareMapOptimized rec mapA mapB seen =
     (if mapA = [] then Inr (True, seen)
      else (case iterateEntries mapB of
              Inl e \<Rightarrow> Inl e
            | Inr entriesB \<Rightarrow> mapLoop rec mapA entriesB seen))"

subsection \<open>\<open>compareObjectOptimized\<close>\<close>

text \<open>
  \<open>keysA\<close> is \<open>Object.keys(objA)\<close>. Both loops run from the last key down; the
  first asks \<open>hasOwnProperty\<close> of \<open>objB\<close> for every key of \<open>objA\<close>, the second
  compares \<open>objA[key]\<close> with \<open>objB[key]\<close>.
\<close>

primrec keysLoop :: "string list \<Rightarrow> obj \<Rightarrow> nat \<Rightarrow> bool" where
  "keysLoop keysA objB 0 = True"
| "keysLoop keysA objB (Suc i) = (if \<not> hasOwn objB (keysA ! i) then False else keysLoop keysA objB i)"

primrec valuesLoop ::
  "comparator \<Rightarrow> obj \<Rightarrow> string list \<Rightarrow> obj \<Rightarrow> nat \<Rightarrow> ledger \<Rightarrow> result" where
  "valuesLoop rec objA keysA objB 0 seen = Inr (True, seen)"
| "valuesLoop rec objA keysA objB (Suc i) seen =
     (case rec (getOwn objA (keysA ! i)) (getOwn objB (keysA ! i)) seen of
        Inl e \<Rightarrow> Inl e
      | Inr (r, seen') \<Rightarrow>
          if \<not> r then Inr (False, seen') else valuesLoop rec objA keysA objB i seen')"

definition compareObjectOptimized ::
  "comparator \<Rightarrow> obj \<Rightarrow> obj \<Rightarrow> ledger \<Rightarrow> result" where
  "compareObjectOptimized rec objA objB seen =
     (let keysA = objectKeys objA; length' = length keysA in
      if length' \<noteq> length (objectKeys objB) then Inr (False, seen)
      else if \<not> keysLoop keysA objB length' then Inr (False, seen)
      else valuesLoop rec objA keysA objB length' seen)"

subsection \<open>\<open>deepEqualCore\<close>\<close>

text \<open>
  The category dispatch of \<open>deepEqualCore\<close>, from the array test to the fallback, for
  the object \<open>a\<close> at address \<open>pa\<close> and the object \<open>b\<close> at address \<open>pb\<close>. In this
  universe \<open>Array.isArray\<close>, \<open>ArrayBuffer.isView\<close> and the tests on \<open>a.constructor\<close>
  hold exactly for the objects of the matching constructor of \<^typ>\<open>obj\<close>, so the order
  of the tests is the order of the equations.
\<close>

fun categoryDispatch ::
  "comparator \<Rightarrow> options \<Rightarrow> nat \<Rightarrow> obj \<Rightarrow> nat \<Rightarrow> obj \<Rightarrow> ledger \<Rightarrow> result" where
  "categoryDispatch rec opts pa (ArrayO arrA) pb b seen =
     (if \<not> strictEq (num (length arrA)) (lengthOf b) then Inr (False, seen)
      else arrayLoop rec arrA b (length arrA) seen)"
| "categoryDispatch rec opts pa (RegExpO src fl) pb b seen =
     Inr (strictEq (VStr src) (sourceOf b) \<and> strictEq (VStr fl) (flagsOf b), seen)"
| "categoryDispatch rec opts pa (DateO t) pb b seen =
     (case getTimeCall b of
        Inl e \<Rightarrow> Inl e
      | Inr tb \<Rightarrow> Inr (strictEq (VNum t) tb, seen))"
| "categoryDispatch rec opts pa (ArrayBufferO bufA) pb b seen =
     (if \<not> strictEq (num (length bufA)) (byteLengthOf b) then Inr (False, seen)
      else (case b of
              ArrayBufferO bufB \<Rightarrow> Inr (list_all2 (\<lambda>x y. x = y) bufA bufB, seen)
            | _ \<Rightarrow> Inl Unmodelled))"
| "categoryDispatch rec opts pa (TypedArrayO k arrA) pb b seen =
     (if \<not> cvalEq (Builtin (CTyped k)) (constructorOf b)
         \<or> \<not> strictEq (num (length arrA)) (lengthOf b) then Inr (False, seen)
      else (case b of
              TypedArrayO _ arrB \<Rightarrow> Inr (list_all2 (typedElemEq (nanEqual opts)) arrA arrB, seen)
            | _ \<Rightarrow> Inl Unmodelled))"
| "categoryDispatch rec opts pa (BoxedO x) pb b seen =
     (case valueOfCall pb b of
        Inl e \<Rightarrow> Inl e
      | Inr vb \<Rightarrow> Inr (strictEq (unbox x) vb, seen))"
| "categoryDispatch rec opts pa (ErrorO nm msg) pb b seen =
     Inr (strictEq (VStr nm) (nameOf b) \<and> strictEq (VStr msg) (messageOf b), seen)"
| "categoryDispatch rec opts pa (SetO setA) pb b seen =
     (if \<not> strictEq (num (length setA)) (sizeOf b) then Inr (False, seen)
      else (case compareSetOptimized rec setA b of
              Inl e \<Rightarrow> Inl e
            | Inr r \<Rightarrow> Inr (r, seen)))"
| "categoryDispatch rec opts pa (MapO mapA) pb b seen =
     (if \<not> strictEq (num (length mapA)) (sizeOf b) then Inr (False, seen)
      else compareMapOptimized rec mapA b seen)"
| "categoryDispatch rec opts pa (PlainO cls ps hs) pb b seen =
     (if overridesValueOf (PlainO cls ps hs) then
        (case valueOfCall pa (PlainO cls ps hs) of
           Inl e \<Rightarrow> Inl e
         | Inr va \<Rightarrow>
             (case valueOfCall pb b of
                Inl e \<Rightarrow> Inl e
              | Inr vb \<Rightarrow> Inr (strictEq va vb, seen)))
      else compareObjectOptimized rec (PlainO cls ps hs) b seen)"

text \<open>
  JavaScript runs the comparator on a call stack of finite size, and a call for which
  no room is left throws a \<open>RangeError\<close>. The first argument of \<open>deepEqualCore\<close>,
  \<open>stack\<close>, is the number of nested calls of \<open>deepEqualCore\<close> the engine still has
  room for; it is the state of the engine, not a parameter of the source. The frames
  of \<open>compareSetOptimized\<close>, \<open>compareMapOptimized\<close> and \<open>compareObjectOptimized\<close>
  are counted with the call of \<open>deepEqualCore\<close> they lead to.

  \<open>deepEqualCore\<close> for the heap \<open>h\<close>. After the test for two non-null objects both
  values are references; the last equation of the case distinction is never taken.
\<close>

primrec deepEqualCore ::
  "nat \<Rightarrow> heap \<Rightarrow> options \<Rightarrow> val \<Rightarrow> val \<Rightarrow> ledger \<Rightarrow> nat \<Rightarrow> result" where
  "deepEqualCore 0 h opts a b seen depth = Inl RangeError"
| "deepEqualCore (Suc stack) h opts a b seen depth =
     (if exceeds depth (maxDepth opts) then Inr (False, seen)
      else if strictEq a b then
        Inr (\<not> strictZero opts \<or> (\<not> isZero a \<or> recipEq a b), seen)
      else if selfUnequal a \<and> selfUnequal b then Inr (nanEqual opts, seen)
      else if \<not> truthy a \<or> \<not> truthy b \<or> \<not> typeofObject a \<or> \<not> typeofObject b then
        Inr (False, seen)
      else
        (case (a, b) of
           (VRef pa, VRef pb) \<Rightarrow>
             if \<not> cvalEq (constructorOf (h pa)) (constructorOf (h pb)) \<and> checkPrototypes opts
             then Inr (False, seen)
             else (case seen pa of
                     Some c \<Rightarrow> Inr (c = pb, seen)
                   | None \<Rightarrow>
                       categoryDispatch (\<lambda>x y s. deepEqualCore stack h opts x y s (depth + 1))
                         opts pa (h pa) pb (h pb) (seen(pa \<mapsto> pb)))
         | _ \<Rightarrow> Inr (False, seen)))"

text \<open>
  The entry point \<open>isDeepEqual\<close>: the options are completed by the defaults
  (\<open>options.maxDepth ?? 1000\<close> and so on), the ledger is new and the depth is 0. An
  option left out is \<open>None\<close>. \<open>stack\<close> is the room on the call stack for the call of
  \<open>deepEqualCore\<close>.
\<close>

record partialOptions =
  nanEqualOpt :: "bool option"
  checkPrototypesOpt :: "bool option"
  strictZeroOpt :: "bool option"
  maxDepthOpt :: "jsnum option"

definition resolveOptions :: "partialOptions \<Rightarrow> options" where
  "resolveOptions po =
     \<lparr> nanEqual = (case nanEqualOpt po of Some x \<Rightarrow> x | None \<Rightarrow> True),
       checkPrototypes = (case checkPrototypesOpt po of Some x \<Rightarrow> x | None \<Rightarrow> False),
       strictZero = (case strictZeroOpt po of Some x \<Rightarrow> x | None \<Rightarrow> False),
       maxDepth = (case maxDepthOpt po of Some x \<Rightarrow> x | None \<Rightarrow> Fin 1000) \<rparr>"

definition defaultOptions :: options where
  "defaultOptions = resolveOptions
     \<lparr> nanEqualOpt = None, checkPrototypesOpt = None, strictZeroOpt = None, maxDepthOpt = None \<rparr>"

definition isDeepEqual ::
  "nat \<Rightarrow> heap \<Rightarrow> val \<Rightarrow> val \<Rightarrow> partialOptions \<Rightarrow> error + bool" where
  "isDeepEqual stack h a b po =
     (case deepEqualCore stack h (resolveOptions po) a b Map.empty 0 of
        Inl e \<Rightarrow> Inl e
      | Inr (r, _) \<Rightarrow> Inr r)"

subsection \<open>The copy of the comparator beside \<open>deepEqualCheck\<close>\<close>

text \<open>
  The repository holds a second entry point, \<open>deepEqualCheck\<close>, with its own copy of
  \<open>deepEqualCore\<close>. The copy differs from the one of \<open>src/core/deep-equal-core.ts\<close>
  only before the category dispatch: it tests identity, NaN and a pair of primitives
  first and the depth after them.
\<close>

fun typeofNumber :: "val \<Rightarrow> bool" where
  "typeofNumber (VNum _) = True"
| "typeofNumber _ = False"

fun typeofFunction :: "val \<Rightarrow> bool" where
  "typeofFunction (VFun _) = True"
| "typeofFunction _ = False"

fun isNaN :: "val \<Rightarrow> bool" where
  "isNaN (VNum NaN) = True"
| "isNaN _ = False"

primrec deepEqualCore_copy ::
  "nat \<Rightarrow> heap \<Rightarrow> options \<Rightarrow> val \<Rightarrow> val \<Rightarrow> ledger \<Rightarrow> nat \<Rightarrow> result" where
  "deepEqualCore_copy 0 h opts a b seen depth = Inl RangeError"
| "deepEqualCore_copy (Suc stack) h opts a b seen depth =
     (if strictEq a b then
        Inr (\<not> strictZero opts \<or> (\<not> isZero a \<or> recipEq a b), seen)
      else if typeofNumber a \<and> typeofNumber b \<and> isNaN a \<and> isNaN b then
        Inr (nanEqual opts, seen)
      else if (a = VNull \<or> \<not> typeofObject a \<and> \<not> typeofFunction a)
            \<and> (b = VNull \<or> \<not> typeofObject b \<and> \<not> typeofFunction b) then
        Inr (False, seen)
      else if exceeds depth (maxDepth opts) then Inr (False, seen)
      else if \<not> truthy a \<or> \<not> truthy b \<or> \<not> typeofObject a \<or> \<not> typeofObject b then
        Inr (False, seen)
      else
        (case (a, b) of
           (VRef pa, VRef pb) \<Rightarrow>
             if \<not> cvalEq (constructorOf (h pa)) (constructorOf (h pb)) \<and> checkPrototypes opts
             then Inr (False, seen)
             else (case seen pa of
                     Some c \<Rightarrow> Inr (c = pb, seen)
                   | None \<Rightarrow>
                       categoryDispatch
                         (\<lambda>x y s. deepEqualCore_copy stack h opts x y s (depth + 1))
                         opts pa (h pa) pb (h pb) (seen(pa \<mapsto> pb)))
         | _ \<Rightarrow> Inr (False, seen)))"

text \<open>The equations are unfolded where a proof asks for them.\<close>

declare deepEqualCore.simps(2) [simp del]
declare deepEqualCore_copy.simps(2) [simp del]

section \<open>Example inputs\<close>

text \<open>The options argument with nothing set, and with only \<open>strictZero\<close> set.\<close>

definition noOptions :: partialOptions where
  "noOptions = \<lparr> nanEqualOpt = None, checkPrototypesOpt = None, strictZeroOpt = None,
     maxDepthOpt = None \<rparr>"

definition strictZeroOn :: partialOptions where
  "strictZeroOn = \<lparr> nanEqualOpt = None, checkPrototypesOpt = None, strictZeroOpt = Some True,
     maxDepthOpt = None \<rparr>"

text \<open>A heap of empty object literals, into which the examples put their objects.\<close>

definition emptyHeap :: heap where
  "emptyHeap = (\<lambda>_. PlainO None [] [])"

text \<open>
  Three self-referential records: \<open>{foo: 1, self: <itself>}\<close> at the addresses 0 and
  1, and \<open>{foo: 2, self: <itself>}\<close> at the address 2.
\<close>

definition selfRefHeap :: heap where
  "selfRefHeap = emptyHeap
     (0 := PlainO None [(''foo'', num 1), (''self'', VRef 0)] [],
      1 := PlainO None [(''foo'', num 1), (''self'', VRef 1)] [],
      2 := PlainO None [(''foo'', num 2), (''self'', VRef 2)] [])"

text \<open>
  \<open>const x = {}; a = [x, x]; b = [{}, {}]\<close>: \<open>a\<close> at the address 0, \<open>b\<close> at 1,
  \<open>x\<close> at 2 and the two elements of \<open>b\<close> at 3 and 4.
\<close>

definition sharedHeap :: heap where
  "sharedHeap = emptyHeap
     (0 := ArrayO [VRef 2, VRef 2],
      1 := ArrayO [VRef 3, VRef 4],
      2 := PlainO None [] [],
      3 := PlainO None [] [],
      4 := PlainO None [] [])"

text \<open>
  \<open>a = new Map([[{}, 1], [{}, 1]])\<close> at the address 0 and
  \<open>b = new Map([[{}, 1], [{x: 1}, 1]])\<close> at 1, with the four keys at 2, 3, 4 and 5;
  the sets \<open>new Set([{}, {}])\<close> at 6 and \<open>new Set([{}, {x: 1}])\<close> at 7 over the same
  objects.
\<close>

definition mapHeap :: heap where
  "mapHeap = emptyHeap
     (0 := MapO [(VRef 2, num 1), (VRef 3, num 1)],
      1 := MapO [(VRef 4, num 1), (VRef 5, num 1)],
      2 := PlainO None [] [],
      3 := PlainO None [] [],
      4 := PlainO None [] [],
      5 := PlainO None [(''x'', num 1)] [],
      6 := SetO [VRef 2, VRef 3],
      7 := SetO [VRef 4, VRef 5])"

text \<open>\<open>a = new Date(0)\<close> at the address 0 and \<open>b = {}\<close> at 1.\<close>

definition dateHeap :: heap where
  "dateHeap = emptyHeap (0 := DateO (Fin 0), 1 := PlainO None [] [])"

text \<open>
  \<open>{length: 1}\<close> at the address 0 and the array \<open>['x']\<close> at 1; \<open>{x: 1}\<close> at 2 and
  \<open>Object.defineProperty({y: 2}, 'x', {value: 1})\<close>, an object with the enumerable
  key \<open>y\<close> and the non-enumerable key \<open>x\<close>, at 3.
\<close>

definition keysHeap :: heap where
  "keysHeap = emptyHeap
     (0 := PlainO None [(''length'', num 1)] [],
      1 := ArrayO [VStr ''x''],
      2 := PlainO None [(''x'', num 1)] [],
      3 := PlainO None [(''y'', num 2)] [(''x'', num 1)])"

text \<open>
  \<open>new Set([1, 2, 3])\<close> at the address 0, \<open>new Set([3, 2, 1])\<close> at 1 and
  \<open>new Set([1, 2])\<close> at 2.
\<close>

definition numberSetHeap :: heap where
  "numberSetHeap = emptyHeap
     (0 := SetO [num 1, num 2, num 3],
      1 := SetO [num 3, num 2, num 1],
      2 := SetO [num 1, num 2])"

text \<open>
  The object literals \<open>{}\<close> at the addresses 2 and 5 and the empty arrays \<open>[]\<close> at 3
  and 4. \<open>mixedA\<close> is \<open>{}, [], 1, \<dots>, 10\<close> and \<open>mixedB\<close> is \<open>[], {}, 1, \<dots>, 10\<close>;
  the sets of these twelve elements are at the addresses 0 and 1, and the sets of the
  first two elements alone at 6 and 7.
\<close>

definition mixedA :: "val list" where
  "mixedA = [VRef 2, VRef 3, num 1, num 2, num 3, num 4, num 5, num 6, num 7, num 8, num 9, num 10]"

definition mixedB :: "val list" where
  "mixedB = [VRef 4, VRef 5, num 1, num 2, num 3, num 4, num 5, num 6, num 7, num 8, num 9, num 10]"

definition mixedHeap :: heap where
  "mixedHeap = emptyHeap
     (0 := SetO mixedA,
      1 := SetO mixedB,
      2 := PlainO None [] [],
      3 := ArrayO [],
      4 := ArrayO [],
      5 := PlainO None [] [],
      6 := SetO [VRef 2, VRef 3],
      7 := SetO [VRef 4, VRef 5])"

text \<open>
  Cyclic inputs. Two sets that each hold themselves, \<open>a = new Set(); a.add(a)\<close>, at
  the addresses 0 and 1; two arrays that each hold themselves,
  \<open>a = []; a.push(a)\<close>, at 2 and 3; two records \<open>{self: <itself>}\<close> at 4 and 5.
\<close>

definition cyclicHeap :: heap where
  "cyclicHeap = emptyHeap
     (0 := SetO [VRef 0],
      1 := SetO [VRef 1],
      2 := ArrayO [VRef 2],
      3 := ArrayO [VRef 3],
      4 := PlainO None [(''self'', VRef 4)] [],
      5 := PlainO None [(''self'', VRef 5)] [])"

section \<open>First-fit matching as the specification words it\<close>

text \<open>
  The specification of the set comparator: for each element of \<open>a\<close>, search the
  elements of \<open>b\<close> not claimed by an earlier match for a counterpart that compares
  equal; the first one found is claimed; if there is none, the sets are unequal.
  \<open>specClaimFirst cmp x unclaimed\<close> gives the elements that stay unclaimed once the
  first counterpart of \<open>x\<close> is taken out, or \<open>None\<close> if \<open>x\<close> has no counterpart.
  This definition follows the words of the specification; the loops of
  \<open>compareSetOptimized\<close>, which mark indices instead, are compared with it below.
\<close>

fun specClaimFirst ::
  "(val \<Rightarrow> val \<Rightarrow> error + bool) \<Rightarrow> val \<Rightarrow> val list \<Rightarrow> error + val list option" where
  "specClaimFirst cmp x [] = Inr None"
| "specClaimFirst cmp x (y # unclaimed) =
     (case cmp x y of
        Inl e \<Rightarrow> Inl e
      | Inr True \<Rightarrow> Inr (Some unclaimed)
      | Inr False \<Rightarrow>
          (case specClaimFirst cmp x unclaimed of
             Inl e \<Rightarrow> Inl e
           | Inr None \<Rightarrow> Inr None
           | Inr (Some rest) \<Rightarrow> Inr (Some (y # rest))))"

fun specFirstFit ::
  "(val \<Rightarrow> val \<Rightarrow> error + bool) \<Rightarrow> val list \<Rightarrow> val list \<Rightarrow> error + bool" where
  "specFirstFit cmp [] unclaimed = Inr True"
| "specFirstFit cmp (x # xs) unclaimed =
     (case specClaimFirst cmp x unclaimed of
        Inl e \<Rightarrow> Inl e
      | Inr None \<Rightarrow> Inr False
      | Inr (Some rest) \<Rightarrow> specFirstFit cmp xs rest)"

text \<open>
  The elements of \<open>setB\<close> that the index set \<open>processedB\<close> leaves unclaimed: in
  insertion order from the running index \<open>index\<close> on, and in reverse order below the
  index \<open>j\<close>.
\<close>

fun unclaimedFrom :: "nat \<Rightarrow> val list \<Rightarrow> nat set \<Rightarrow> val list" where
  "unclaimedFrom index [] processedB = []"
| "unclaimedFrom index (y # ys) processedB =
     (if index \<in> processedB then unclaimedFrom (index + 1) ys processedB
      else y # unclaimedFrom (index + 1) ys processedB)"

primrec unclaimedBelow :: "nat \<Rightarrow> val list \<Rightarrow> nat set \<Rightarrow> val list" where
  "unclaimedBelow 0 arrB processedB = []"
| "unclaimedBelow (Suc j) arrB processedB =
     (if j \<in> processedB then unclaimedBelow j arrB processedB
      else arrB ! j # unclaimedBelow j arrB processedB)"

section \<open>The order of the fast paths\<close>

text \<open>
  Claim C1 fails on the copy of the comparator beside \<open>deepEqualCheck\<close>: there the
  identity test comes before the depth guard, and one object compared with itself
  gives true at depth 1 under the ceiling 0.
\<close>

theorem copy_guard_not_first:
  "deepEqualCore_copy 1 emptyHeap
     \<lparr> nanEqual = True, checkPrototypes = False, strictZero = False, maxDepth = Fin 0 \<rparr>
     (VRef 0) (VRef 0) Map.empty 1 = Inr (True, Map.empty)"
  by (simp add: deepEqualCore_copy.simps(2))

text \<open>
  Claim C1 as amended. In \<open>deepEqualCore\<close> of \<open>src/core/deep-equal-core.ts\<close> the depth
  guard is the first rule: whatever the two values, the options and the ledger are,
  a call whose depth exceeds \<open>maxDepth\<close> returns false and leaves the ledger as it
  was, so two identical values compare false too. In the copy beside
  \<open>deepEqualCheck\<close> the guard is the fourth rule: past the ceiling two values that
  are \<open>===\<close> still get the answer of the identity rule, two NaNs get \<open>nanEqual\<close>,
  and every other pair compares false.
\<close>

theorem depth_guard_in_both_copies:
  "(exceeds depth (maxDepth opts) \<longrightarrow>
      deepEqualCore (Suc stack) h opts a b seen depth = Inr (False, seen))
   \<and> (exceeds depth (maxDepth opts) \<longrightarrow>
      deepEqualCore_copy (Suc stack) h opts a b seen depth =
        Inr (if strictEq a b then \<not> strictZero opts \<or> \<not> isZero a \<or> recipEq a b
             else if isNaN a \<and> isNaN b then nanEqual opts
             else False, seen))"
  by (auto simp: deepEqualCore.simps(2) deepEqualCore_copy.simps(2) elim: isNaN.elims)

theorem depth_guard_in_both_copies_witness:
  "deepEqualCore 1 emptyHeap
     \<lparr> nanEqual = True, checkPrototypes = False, strictZero = False, maxDepth = Fin 0 \<rparr>
     (VRef 0) (VRef 0) Map.empty 1 = Inr (False, Map.empty)
   \<and> deepEqualCore_copy 1 emptyHeap
     \<lparr> nanEqual = True, checkPrototypes = False, strictZero = False, maxDepth = Fin 0 \<rparr>
     (VRef 0) (VRef 1) Map.empty 1 = Inr (False, Map.empty)"
  using depth_guard_in_both_copies [of 1
      "\<lparr> nanEqual = True, checkPrototypes = False, strictZero = False, maxDepth = Fin 0 \<rparr>"
      0 emptyHeap "VRef 0" "VRef 0" Map.empty]
    depth_guard_in_both_copies [of 1
      "\<lparr> nanEqual = True, checkPrototypes = False, strictZero = False, maxDepth = Fin 0 \<rparr>"
      0 emptyHeap "VRef 0" "VRef 1" Map.empty]
  by simp

text \<open>
  Claim C7. Below the depth ceiling, two values that are \<open>===\<close> (the same primitive
  value or the same reference) compare true, unless \<open>strictZero\<close> is set and the value
  is a zero: then they compare true exactly if both are the same zero. So with
  \<open>strictZero\<close> the call on \<open>+0\<close> and \<open>+0\<close> gives true and on \<open>+0\<close> and \<open>-0\<close> false,
  and without it \<open>+0\<close> and \<open>-0\<close> compare true.
\<close>

theorem identity_fast_path:
  assumes "\<not> exceeds depth (maxDepth opts)" and "strictEq a b"
  shows "deepEqualCore (Suc stack) h opts a b seen depth =
           Inr (if strictZero opts \<and> isZero a then a = b else True, seen)"
proof -
  have "isZero a \<Longrightarrow> recipEq a b = (a = b)"
    using assms(2) by (cases a; cases b) (auto elim: isZero.elims recipEq.elims split: jsnum.splits)
  then show ?thesis
    using assms by (auto simp: deepEqualCore.simps(2))
qed

theorem identity_fast_path_witness:
  "isDeepEqual 1 emptyHeap (VNum (Fin 0)) (VNum (Fin 0)) strictZeroOn = Inr True
   \<and> isDeepEqual 1 emptyHeap (VNum (Fin 0)) (VNum NegZero) strictZeroOn = Inr False
   \<and> isDeepEqual 1 emptyHeap (VNum (Fin 0)) (VNum NegZero) noOptions = Inr True
   \<and> isDeepEqual 1 emptyHeap (VRef 7) (VRef 7) strictZeroOn = Inr True"
proof -
  have pp: "deepEqualCore 1 emptyHeap (resolveOptions strictZeroOn) (VNum (Fin 0)) (VNum (Fin 0))
              Map.empty 0 = Inr (True, Map.empty)"
    using identity_fast_path [of 0 "resolveOptions strictZeroOn" "VNum (Fin 0)" "VNum (Fin 0)"
        0 emptyHeap Map.empty]
    by (simp add: resolveOptions_def strictZeroOn_def)
  have pn: "deepEqualCore 1 emptyHeap (resolveOptions strictZeroOn) (VNum (Fin 0)) (VNum NegZero)
              Map.empty 0 = Inr (False, Map.empty)"
    using identity_fast_path [of 0 "resolveOptions strictZeroOn" "VNum (Fin 0)" "VNum NegZero"
        0 emptyHeap Map.empty]
    by (simp add: resolveOptions_def strictZeroOn_def)
  have dn: "deepEqualCore 1 emptyHeap (resolveOptions noOptions) (VNum (Fin 0)) (VNum NegZero)
              Map.empty 0 = Inr (True, Map.empty)"
    using identity_fast_path [of 0 "resolveOptions noOptions" "VNum (Fin 0)" "VNum NegZero"
        0 emptyHeap Map.empty]
    by (simp add: resolveOptions_def noOptions_def)
  have rr: "deepEqualCore 1 emptyHeap (resolveOptions strictZeroOn) (VRef 7) (VRef 7)
              Map.empty 0 = Inr (True, Map.empty)"
    using identity_fast_path [of 0 "resolveOptions strictZeroOn" "VRef 7" "VRef 7"
        0 emptyHeap Map.empty]
    by (simp add: resolveOptions_def strictZeroOn_def)
  show ?thesis
    unfolding isDeepEqual_def pp pn dn rr by simp
qed

section \<open>Shared references, map entries and mismatched categories\<close>

text \<open>
  Claim C2 fails on the code. With \<open>const x = {}\<close>, \<open>a = [x, x]\<close> and
  \<open>b = [{}, {}]\<close> (no cycle, no set, no map) the call on \<open>a\<close> and \<open>b\<close> returns false:
  the second visit of \<open>x\<close> finds it in the ledger, paired with the other element of
  \<open>b\<close>. The call on \<open>b\<close> and \<open>a\<close> returns true. Two nested calls are all the call
  stack has to hold.
\<close>

theorem shared_reference_asymmetry:
  "isDeepEqual (Suc (Suc stack)) sharedHeap (VRef 0) (VRef 1) noOptions = Inr False
   \<and> isDeepEqual (Suc (Suc stack)) sharedHeap (VRef 1) (VRef 0) noOptions = Inr True"
  by (simp add: isDeepEqual_def noOptions_def resolveOptions_def sharedHeap_def emptyHeap_def
        deepEqualCore.simps(2) selfUnequal_def compareObjectOptimized_def numeral_2_eq_2)

text \<open>
  Claim C3 fails on the code: the map comparator marks no entry of \<open>b\<close>. On
  \<open>new Map([[{}, 1], [{}, 1]])\<close> and \<open>new Map([[{}, 1], [{x: 1}, 1]])\<close> both entries
  of \<open>a\<close> are matched to the first entry of \<open>b\<close> and the maps compare true, although
  the second entry of \<open>b\<close> equals no entry of \<open>a\<close>. The set comparator, which does
  mark, returns false on the two sets of the same keys.
\<close>

theorem map_entries_not_claimed:
  "isDeepEqual (Suc (Suc stack)) mapHeap (VRef 0) (VRef 1) noOptions = Inr True
   \<and> isDeepEqual (Suc (Suc stack)) mapHeap (VRef 6) (VRef 7) noOptions = Inr False"
  by (simp add: isDeepEqual_def noOptions_def resolveOptions_def mapHeap_def emptyHeap_def
        deepEqualCore.simps(2) selfUnequal_def compareObjectOptimized_def
        compareMapOptimized_def compareSetOptimized_def pairFresh_def)

text \<open>
  Claim C8 fails on the code. Under the default options \<open>checkPrototypes\<close> is off, a
  date on the left sends the call to the date branch whatever the right-hand object
  is, and \<open>dateB.getTime()\<close> on the object literal \<open>{}\<close> throws a \<open>TypeError\<close>.
\<close>

theorem date_against_object_throws:
  "isDeepEqual (Suc stack) dateHeap (VRef 0) (VRef 1) noOptions = Inl TypeError"
  by (simp add: isDeepEqual_def noOptions_def resolveOptions_def dateHeap_def emptyHeap_def
        deepEqualCore.simps(2) selfUnequal_def)

text \<open>
  Claim C9 fails on the code. The fallback compares the number of enumerable keys and
  then asks \<open>hasOwnProperty\<close> of \<open>b\<close> for every key of \<open>a\<close>; that holds of
  non-enumerable own properties too, and \<open>b\<close> is never tested to be a plain object.
  Under the default options \<open>{length: 1}\<close> compares true with the array \<open>['x']\<close>,
  whose only enumerable key is \<open>0\<close>, and \<open>{x: 1}\<close> compares true with an object whose
  only enumerable key is \<open>y\<close> and which owns a non-enumerable \<open>x\<close> of value 1.
\<close>

theorem keys_not_compared_as_sets:
  "isDeepEqual (Suc (Suc stack)) keysHeap (VRef 0) (VRef 1) noOptions = Inr True
   \<and> set (objectKeys (keysHeap 0)) \<noteq> set (objectKeys (keysHeap 1))
   \<and> isDeepEqual (Suc (Suc stack)) keysHeap (VRef 2) (VRef 3) noOptions = Inr True
   \<and> set (objectKeys (keysHeap 2)) \<noteq> set (objectKeys (keysHeap 3))"
  by (simp add: isDeepEqual_def noOptions_def resolveOptions_def keysHeap_def emptyHeap_def
        deepEqualCore.simps(2) selfUnequal_def compareObjectOptimized_def indexKeys_def
        decimal.simps)

section \<open>The ledger\<close>

text \<open>
  Claim C6. For two distinct objects below the depth ceiling that pass the constructor
  test: if the left-hand object is in the ledger, the call returns at once, true exactly
  if the recorded counterpart is the right-hand object, and the ledger is unchanged;
  if it is not, the category dispatch, which makes every call on the children, runs on
  the ledger extended by the pair. Two self-referential records
  \<open>{foo: 1, self: <itself>}\<close> compare true; against \<open>{foo: 2, self: <itself>}\<close> the
  result is false.
\<close>

theorem cycle_detection:
  "(\<not> exceeds depth (maxDepth opts) \<longrightarrow> pa \<noteq> pb
      \<longrightarrow> (checkPrototypes opts \<longrightarrow> cvalEq (constructorOf (h pa)) (constructorOf (h pb)))
      \<longrightarrow> deepEqualCore (Suc stack) h opts (VRef pa) (VRef pb) seen depth =
            (case seen pa of
               Some c \<Rightarrow> Inr (c = pb, seen)
             | None \<Rightarrow>
                 categoryDispatch (\<lambda>x y s. deepEqualCore stack h opts x y s (depth + 1))
                   opts pa (h pa) pb (h pb) (seen(pa \<mapsto> pb))))
   \<and> isDeepEqual (Suc (Suc stack)) selfRefHeap (VRef 0) (VRef 1) noOptions = Inr True
   \<and> isDeepEqual (Suc (Suc stack)) selfRefHeap (VRef 0) (VRef 2) noOptions = Inr False"
proof (intro conjI impI)
  assume "\<not> exceeds depth (maxDepth opts)" and "pa \<noteq> pb"
    and "checkPrototypes opts \<longrightarrow> cvalEq (constructorOf (h pa)) (constructorOf (h pb))"
  then show "deepEqualCore (Suc stack) h opts (VRef pa) (VRef pb) seen depth =
            (case seen pa of
               Some c \<Rightarrow> Inr (c = pb, seen)
             | None \<Rightarrow>
                 categoryDispatch (\<lambda>x y s. deepEqualCore stack h opts x y s (depth + 1))
                   opts pa (h pa) pb (h pb) (seen(pa \<mapsto> pb)))"
    by (auto simp: deepEqualCore.simps(2) selfUnequal_def split: option.splits)
next
  show "isDeepEqual (Suc (Suc stack)) selfRefHeap (VRef 0) (VRef 1) noOptions = Inr True"
    by (simp add: isDeepEqual_def noOptions_def resolveOptions_def selfRefHeap_def emptyHeap_def
          deepEqualCore.simps(2) selfUnequal_def compareObjectOptimized_def numeral_2_eq_2)
next
  show "isDeepEqual (Suc (Suc stack)) selfRefHeap (VRef 0) (VRef 2) noOptions = Inr False"
    by (simp add: isDeepEqual_def noOptions_def resolveOptions_def selfRefHeap_def emptyHeap_def
          deepEqualCore.simps(2) selfUnequal_def compareObjectOptimized_def numeral_2_eq_2)
qed

theorem cycle_detection_witness:
  "deepEqualCore 1 selfRefHeap (resolveOptions noOptions) (VRef 0) (VRef 1) [0 \<mapsto> 1] 1
     = Inr (True, [0 \<mapsto> 1])
   \<and> deepEqualCore 1 selfRefHeap (resolveOptions noOptions) (VRef 0) (VRef 2) [0 \<mapsto> 1] 1
     = Inr (False, [0 \<mapsto> 1])"
  using cycle_detection [of 1 "resolveOptions noOptions" 0 1 selfRefHeap 0 "[0 \<mapsto> 1]"]
    cycle_detection [of 1 "resolveOptions noOptions" 0 2 selfRefHeap 0 "[0 \<mapsto> 1]"]
  by (simp add: resolveOptions_def noOptions_def)

section \<open>The set comparator\<close>

lemma unclaimedFrom_insert_below:
  "j < index \<Longrightarrow> unclaimedFrom index ys (insert j P) = unclaimedFrom index ys P"
  by (induction ys arbitrary: index) auto

lemma findForward_index:
  "findForward cmp x ys index P = Inr (Some j) \<Longrightarrow> index \<le> j \<and> j \<notin> P"
proof (induction ys arbitrary: index)
  case Nil
  then show ?case by simp
next
  case (Cons y ys)
  then show ?case
    by (fastforce split: if_splits sum.splits bool.splits)
qed

lemma findForward_claims:
  "specClaimFirst cmp x (unclaimedFrom index ys P) =
     (case findForward cmp x ys index P of
        Inl e \<Rightarrow> Inl e
      | Inr None \<Rightarrow> Inr None
      | Inr (Some j) \<Rightarrow> Inr (Some (unclaimedFrom index ys (insert j P))))"
proof (induction ys arbitrary: index)
  case Nil
  then show ?case by simp
next
  case (Cons y ys)
  show ?case
  proof (cases "index \<in> P")
    case True
    then show ?thesis
      using Cons.IH [of "index + 1"] by (simp split: sum.splits option.splits)
  next
    case False
    show ?thesis
    proof (cases "cmp x y")
      case (Inl e)
      with False show ?thesis by simp
    next
      case (Inr r)
      show ?thesis
      proof (cases r)
        case True
        with Inr False show ?thesis
          by (simp add: unclaimedFrom_insert_below)
      next
        case no: False
        show ?thesis
        proof (cases "findForward cmp x ys (index + 1) P")
          case (Inl e)
          with Inr no False Cons.IH [of "index + 1"] show ?thesis by simp
        next
          case found: (Inr r')
          show ?thesis
          proof (cases r')
            case None
            with found Inr no False Cons.IH [of "index + 1"] show ?thesis by simp
          next
            case (Some j)
            with found have "index + 1 \<le> j"
              using findForward_index by blast
            with Some found Inr no False Cons.IH [of "index + 1"] show ?thesis by simp
          qed
        qed
      qed
    qed
  qed
qed

lemma smallSetLoop_refines:
  "smallSetLoop cmp xs ys P = specFirstFit cmp xs (unclaimedFrom 0 ys P)"
proof (induction xs arbitrary: P)
  case Nil
  then show ?case by simp
next
  case (Cons x xs)
  show ?case
    using Cons.IH
    by (simp add: findForward_claims split: sum.splits option.splits)
qed

lemma unclaimedFrom_none: "unclaimedFrom index ys {} = ys"
  by (induction ys arbitrary: index) auto

lemma findBackward_index:
  "findBackward cmp x ys j P = Inr (Some k) \<Longrightarrow> k < j \<and> k \<notin> P"
proof (induction j)
  case 0
  then show ?case by simp
next
  case (Suc j)
  then show ?case
    by (fastforce split: if_splits sum.splits bool.splits simp: less_Suc_eq)
qed

lemma unclaimedBelow_insert_above:
  "j \<le> k \<Longrightarrow> unclaimedBelow j ys (insert k P) = unclaimedBelow j ys P"
  by (induction j) auto

lemma findBackward_claims:
  "specClaimFirst cmp x (unclaimedBelow j ys P) =
     (case findBackward cmp x ys j P of
        Inl e \<Rightarrow> Inl e
      | Inr None \<Rightarrow> Inr None
      | Inr (Some k) \<Rightarrow> Inr (Some (unclaimedBelow j ys (insert k P))))"
proof (induction j)
  case 0
  then show ?case by simp
next
  case (Suc j)
  show ?case
  proof (cases "j \<in> P")
    case True
    then show ?thesis
      using Suc.IH by (simp split: sum.splits option.splits)
  next
    case False
    show ?thesis
    proof (cases "cmp x (ys ! j)")
      case (Inl e)
      with False show ?thesis by simp
    next
      case (Inr r)
      show ?thesis
      proof (cases r)
        case True
        with Inr False show ?thesis
          by (simp add: unclaimedBelow_insert_above)
      next
        case no: False
        show ?thesis
        proof (cases "findBackward cmp x ys j P")
          case (Inl e)
          with Inr no False Suc.IH show ?thesis by simp
        next
          case found: (Inr r')
          show ?thesis
          proof (cases r')
            case None
            with found Inr no False Suc.IH show ?thesis by simp
          next
            case (Some k)
            with found have "k < j"
              using findBackward_index by blast
            with Some found Inr no False Suc.IH show ?thesis by simp
          qed
        qed
      qed
    qed
  qed
qed

lemma largeSetLoop_refines:
  "i \<le> length xs \<Longrightarrow>
   largeSetLoop cmp xs ys i P = specFirstFit cmp (rev (take i xs)) (unclaimedBelow (length ys) ys P)"
proof (induction i arbitrary: P)
  case 0
  then show ?case by simp
next
  case (Suc i)
  then have "rev (take (Suc i) xs) = xs ! i # rev (take i xs)"
    by (simp add: take_Suc_conv_app_nth)
  then show ?case
    using Suc
    by (simp add: findBackward_claims split: sum.splits option.splits)
qed

lemma unclaimedBelow_none: "j \<le> length ys \<Longrightarrow> unclaimedBelow j ys {} = rev (take j ys)"
  by (induction j) (auto simp: take_Suc_conv_app_nth)

lemma small_branch_is_first_fit:
  "smallSetLoop cmp xs ys {} = specFirstFit cmp xs ys"
  by (simp add: smallSetLoop_refines unclaimedFrom_none)

lemma large_branch_is_first_fit:
  "largeSetLoop cmp xs ys (length xs) {} = specFirstFit cmp (rev xs) (rev ys)"
  by (simp add: largeSetLoop_refines unclaimedBelow_none)

text \<open>
  Claim C4. Two sets reach the set branch when they are distinct objects below the
  depth ceiling and the left one is not yet in the ledger. Sets of different sizes
  compare unequal. Sets of one size are matched first-fit as the specification words
  it: each element of \<open>a\<close> claims the first element of \<open>b\<close>, not claimed before, that
  compares equal to it at \<open>depth + 1\<close> on a new, empty ledger, and an element without
  such a counterpart makes the sets unequal. Up to ten elements both sets are run
  through in insertion order, above ten both in reverse order. The caller's ledger
  gains the pair of the two sets and nothing else.
\<close>

theorem set_comparison:
  "\<not> exceeds depth (maxDepth opts) \<and> pa \<noteq> pb \<and> h pa = SetO setA \<and> h pb = SetO setB
     \<and> seen pa = None
   \<longrightarrow>
     deepEqualCore (Suc stack) h opts (VRef pa) (VRef pb) seen depth =
       (if length setA \<noteq> length setB then Inr (False, seen(pa \<mapsto> pb))
        else
          (case (if length setA \<le> 10
                 then specFirstFit
                        (\<lambda>x y. case deepEqualCore stack h opts x y Map.empty (depth + 1) of
                                 Inl e \<Rightarrow> Inl e | Inr (r, _) \<Rightarrow> Inr r)
                        setA setB
                 else specFirstFit
                        (\<lambda>x y. case deepEqualCore stack h opts x y Map.empty (depth + 1) of
                                 Inl e \<Rightarrow> Inl e | Inr (r, _) \<Rightarrow> Inr r)
                        (rev setA) (rev setB)) of
             Inl e \<Rightarrow> Inl e
           | Inr r \<Rightarrow> Inr (r, seen(pa \<mapsto> pb))))"
proof
  let ?rec = "\<lambda>x y s. deepEqualCore stack h opts x y s (depth + 1)"
  assume asm: "\<not> exceeds depth (maxDepth opts) \<and> pa \<noteq> pb \<and> h pa = SetO setA
    \<and> h pb = SetO setB \<and> seen pa = None"
  have fresh: "pairFresh ?rec =
      (\<lambda>x y. case deepEqualCore stack h opts x y Map.empty (depth + 1) of
               Inl e \<Rightarrow> Inl e | Inr (r, _) \<Rightarrow> Inr r)"
    by (intro ext) (simp add: pairFresh_def)
  have dispatch: "deepEqualCore (Suc stack) h opts (VRef pa) (VRef pb) seen depth =
      categoryDispatch ?rec opts pa (SetO setA) pb (SetO setB) (seen(pa \<mapsto> pb))"
    using asm by (auto simp: deepEqualCore.simps(2) selfUnequal_def)
  have small: "length setA \<le> 10 \<Longrightarrow> length setA = length setB \<Longrightarrow>
      compareSetOptimized ?rec setA (SetO setB) = specFirstFit (pairFresh ?rec) setA setB"
    by (cases "setA = []") (auto simp: compareSetOptimized_def small_branch_is_first_fit)
  have large: "\<not> length setA \<le> 10 \<Longrightarrow> length setA = length setB \<Longrightarrow>
      compareSetOptimized ?rec setA (SetO setB)
        = specFirstFit (pairFresh ?rec) (rev setA) (rev setB)"
    using large_branch_is_first_fit [of "pairFresh ?rec" setA setB]
    by (simp add: compareSetOptimized_def)
  show "deepEqualCore (Suc stack) h opts (VRef pa) (VRef pb) seen depth =
       (if length setA \<noteq> length setB then Inr (False, seen(pa \<mapsto> pb))
        else
          (case (if length setA \<le> 10
                 then specFirstFit
                        (\<lambda>x y. case deepEqualCore stack h opts x y Map.empty (depth + 1) of
                                 Inl e \<Rightarrow> Inl e | Inr (r, _) \<Rightarrow> Inr r)
                        setA setB
                 else specFirstFit
                        (\<lambda>x y. case deepEqualCore stack h opts x y Map.empty (depth + 1) of
                                 Inl e \<Rightarrow> Inl e | Inr (r, _) \<Rightarrow> Inr r)
                        (rev setA) (rev setB)) of
             Inl e \<Rightarrow> Inl e
           | Inr r \<Rightarrow> Inr (r, seen(pa \<mapsto> pb))))"
    unfolding dispatch fresh [symmetric]
    using small large by simp
qed

theorem set_comparison_witness:
  "deepEqualCore 2 numberSetHeap (resolveOptions noOptions) (VRef 0) (VRef 1) Map.empty 0
     = Inr (True, [0 \<mapsto> 1])
   \<and> deepEqualCore 2 numberSetHeap (resolveOptions noOptions) (VRef 0) (VRef 2) Map.empty 0
     = Inr (False, [0 \<mapsto> 2])"
  using set_comparison [of 0 "resolveOptions noOptions" 0 1 numberSetHeap
          "[num 1, num 2, num 3]" "[num 3, num 2, num 1]" Map.empty 1]
    set_comparison [of 0 "resolveOptions noOptions" 0 2 numberSetHeap
          "[num 1, num 2, num 3]" "[num 1, num 2]" Map.empty 1]
  by (simp add: numberSetHeap_def emptyHeap_def resolveOptions_def noOptions_def
        deepEqualCore.simps(2) selfUnequal_def numeral_2_eq_2)

text \<open>
  Claim C10 fails on the code. On the element lists \<open>{}, [], 1, \<dots>, 10\<close> and
  \<open>[], {}, 1, \<dots>, 10\<close> under the default options the loop of the first branch gives
  false and the loop of the second branch gives true: \<open>{}\<close> compares equal to \<open>[]\<close>
  but \<open>[]\<close> does not compare equal to \<open>{}\<close>, so the outcome depends on the order in
  which the elements claim their counterparts. The sets of these twelve elements
  compare true, the sets of the first two elements alone compare false.
\<close>

theorem set_branches_disagree:
  "smallSetLoop (pairFresh (\<lambda>x y s. deepEqualCore (Suc stack) mixedHeap defaultOptions x y s 1))
       mixedA mixedB {} = Inr False
   \<and> largeSetLoop (pairFresh (\<lambda>x y s. deepEqualCore (Suc stack) mixedHeap defaultOptions x y s 1))
       mixedA mixedB (length mixedA) {} = Inr True
   \<and> isDeepEqual (Suc (Suc stack)) mixedHeap (VRef 0) (VRef 1) noOptions = Inr True
   \<and> isDeepEqual (Suc (Suc stack)) mixedHeap (VRef 6) (VRef 7) noOptions = Inr False"
  by (simp add: isDeepEqual_def noOptions_def defaultOptions_def resolveOptions_def
        mixedHeap_def mixedA_def mixedB_def emptyHeap_def deepEqualCore.simps(2) selfUnequal_def
        compareObjectOptimized_def compareSetOptimized_def pairFresh_def indexKeys_def
        eval_nat_numeral)

theorem set_branches_disagree_witness:
  "smallSetLoop (pairFresh (\<lambda>x y s. deepEqualCore 1 mixedHeap defaultOptions x y s 1))
       mixedA mixedB {} = Inr False
   \<and> largeSetLoop (pairFresh (\<lambda>x y s. deepEqualCore 1 mixedHeap defaultOptions x y s 1))
       mixedA mixedB (length mixedA) {} = Inr True
   \<and> isDeepEqual 2 mixedHeap (VRef 0) (VRef 1) noOptions = Inr True
   \<and> isDeepEqual 2 mixedHeap (VRef 6) (VRef 7) noOptions = Inr False"
  using set_branches_disagree [of 0] by (simp add: numeral_2_eq_2)

section \<open>Cycles through sets\<close>

lemma cyclic_sets_step:
  assumes "\<not> exceeds depth (maxDepth opts)"
  shows "deepEqualCore (Suc stack) cyclicHeap opts (VRef 0) (VRef 1) Map.empty depth =
     (case deepEqualCore stack cyclicHeap opts (VRef 0) (VRef 1) Map.empty (depth + 1) of
        Inl e \<Rightarrow> Inl e
      | Inr (r, _) \<Rightarrow> Inr (r, [0 \<mapsto> 1]))"
  using assms
  by (simp add: deepEqualCore.simps(2) cyclicHeap_def emptyHeap_def selfUnequal_def
        compareSetOptimized_def pairFresh_def split: sum.splits bool.splits)


text \<open>
  Under a finite ceiling \<open>m\<close> the depth guard ends the same recursion after
  \<open>m + 2 - depth\<close> nested calls, with the answer false, if the call stack has room
  for them, and the call throws if it has not.
\<close>

lemma cyclic_sets_finite_ceiling:
  "deepEqualCore stack cyclicHeap (opts\<lparr>maxDepth := Fin m\<rparr>) (VRef 0) (VRef 1) Map.empty depth =
     (if stack = 0 then Inl RangeError
      else if int depth > m then Inr (False, Map.empty)
      else if int stack > m + 1 - int depth then Inr (False, [0 \<mapsto> 1])
      else Inl RangeError)"
proof (induction stack arbitrary: depth)
  case 0
  then show ?case by simp
next
  case (Suc stack)
  show ?case
  proof (cases "int depth > m")
    case True
    then show ?thesis by (simp add: deepEqualCore.simps(2))
  next
    case False
    then have "\<not> exceeds depth (maxDepth (opts\<lparr>maxDepth := Fin m\<rparr>))" by simp
    from cyclic_sets_step [OF this, where stack = stack] Suc.IH [of "depth + 1"] False
    show ?thesis by (auto split: if_splits)
  qed
qed



end
